theory Spec2Isabelle
  imports Complex_Main
begin

section \<open>Python and PyTorch values\<close>

text \<open>
  The source is \<^verbatim>\<open>voicebox_pytorch/voicebox_pytorch.py\<close>. Every \<^verbatim>\<open>raise\<close>,
  failed \<^verbatim>\<open>assert\<close> and failing library call is a value \<open>Inl e\<close> of the result
  type \<open>error + 'a\<close>. Floating-point numbers are modelled by exact reals.
\<close>

datatype error =
    AssertionError
  | NameError
  | RuntimeError
  | ValueError
  | IndexError
  | AttributeError
  | ZeroDivisionError
  | EinopsError

definition ebind :: "error + 'a \<Rightarrow> ('a \<Rightarrow> error + 'b) \<Rightarrow> error + 'b" where
  "ebind r f = (case r of Inl e \<Rightarrow> Inl e | Inr v \<Rightarrow> f v)"

text \<open>
  A tensor is its shape and its elements in row-major order (a contiguous
  \<^verbatim>\<open>torch.Tensor\<close>). It is well formed when it has as many elements as its
  shape says.
\<close>

datatype 'a tensor = Tensor (shape: "nat list") (data: "'a list")

definition wf_tensor :: "'a tensor \<Rightarrow> bool" where
  "wf_tensor t = (length (data t) = prod_list (shape t))"

definition ndim :: "'a tensor \<Rightarrow> nat" where
  "ndim t = length (shape t)"

subsection \<open>Helper functions (source lines 23--45)\<close>

definition exists_val :: "'a option \<Rightarrow> bool" where
  "exists_val val = (val \<noteq> None)"

definition default_val :: "'a option \<Rightarrow> 'a \<Rightarrow> 'a" where
  "default_val val d = (if exists_val val then the val else d)"

text \<open>Python's \<^verbatim>\<open>%\<close> with a positive divisor is \<open>mod\<close> on \<open>int\<close>.\<close>

definition divisible_by :: "int \<Rightarrow> int \<Rightarrow> bool" where
  "divisible_by num den = (num mod den = 0)"

definition is_odd :: "int \<Rightarrow> bool" where
  "is_odd n = (\<not> divisible_by n 2)"

text \<open>\<^verbatim>\<open>coin_flip\<close>: the argument is the value drawn by \<^verbatim>\<open>random()\<close>.\<close>

definition coin_flip :: "real \<Rightarrow> bool" where
  "coin_flip r = (r < 0.5)"

subsection \<open>The PyTorch operations the mask helpers use\<close>

text \<open>\<^verbatim>\<open>torch.arange(n)\<close>: the integers below \<open>n\<close>; a negative bound is refused.\<close>

definition arange :: "int \<Rightarrow> error + int tensor" where
  "arange n =
     (if n < 0 then Inl RuntimeError
      else Inr (Tensor [nat n] (map int [0..<nat n])))"

text \<open>
  \<^verbatim>\<open>Tensor.reshape(*dims)\<close>: a single dimension may be \<open>-1\<close> and is then
  inferred from the number of elements and the other dimensions. It is an
  error when two dimensions are \<open>-1\<close> (only one dimension can be inferred),
  when the other dimensions multiply to zero (the inferred size would be
  ambiguous), or when the sizes do not fit the number of elements.
\<close>

definition reshape :: "'a tensor \<Rightarrow> int list \<Rightarrow> error + 'a tensor" where
  "reshape t dims =
     (let numel = int (length (data t));
          newsize = prod_list (filter (\<lambda>d. d \<noteq> - 1) dims);
          inferred = length (filter (\<lambda>d. d = - 1) dims)
      in if list_ex (\<lambda>d. d < - 1) dims then Inl RuntimeError
         else if 1 < inferred then Inl RuntimeError
         else if inferred = 1 then
           (if newsize = 0 then Inl RuntimeError
            else if numel mod newsize \<noteq> 0 then Inl RuntimeError
            else Inr (Tensor (map (\<lambda>d. nat (if d = - 1 then numel div newsize else d)) dims)
                        (data t)))
         else if newsize \<noteq> numel then Inl RuntimeError
         else Inr (Tensor (map nat dims) (data t)))"

text \<open>
  Broadcasting. Shapes are aligned at their last dimension, the shorter one
  padded with ones in front; a dimension of size one is repeated (read with
  stride zero). \<open>src_index s d j\<close> is the position in a tensor of shape \<open>s\<close> that
  position \<open>j\<close> of its expansion to shape \<open>d\<close> reads.
\<close>

definition pad_shape :: "nat \<Rightarrow> nat list \<Rightarrow> nat list" where
  "pad_shape k s = replicate (k - length s) 1 @ s"

fun src_index :: "nat list \<Rightarrow> nat list \<Rightarrow> nat \<Rightarrow> nat" where
  "src_index (s # ss) (d # ds) j =
     (if s = 1 then 0 else j div prod_list ds) * prod_list ss
       + src_index ss ds (j mod prod_list ds)"
| "src_index _ _ j = 0"

definition broadcast_to :: "'a tensor \<Rightarrow> nat list \<Rightarrow> 'a tensor" where
  "broadcast_to t s =
     Tensor s (map (\<lambda>j. data t ! src_index (pad_shape (length s) (shape t)) s j)
                 [0..<prod_list s])"

definition expandable :: "nat list \<Rightarrow> nat list \<Rightarrow> bool" where
  "expandable s d = list_all2 (\<lambda>a b. a = b \<or> a = 1) s d"

text \<open>\<^verbatim>\<open>Tensor.expand(*sizes)\<close>, for sizes without \<open>-1\<close>.\<close>

definition expand :: "'a tensor \<Rightarrow> nat list \<Rightarrow> error + 'a tensor" where
  "expand t sizes =
     (if length (shape t) \<le> length sizes
         \<and> expandable (pad_shape (length sizes) (shape t)) sizes
      then Inr (broadcast_to t sizes)
      else Inl RuntimeError)"

definition broadcast_shapes :: "nat list \<Rightarrow> nat list \<Rightarrow> nat list option" where
  "broadcast_shapes a b =
     (let k = max (length a) (length b);
          a' = pad_shape k a;
          b' = pad_shape k b
      in if list_all2 (\<lambda>x y. x = y \<or> x = 1 \<or> y = 1) a' b'
         then Some (map2 (\<lambda>x y. if x = 1 then y else x) a' b')
         else None)"

text \<open>An elementwise binary operation on two tensors, with broadcasting.\<close>

definition tensor_op2 ::
  "('a \<Rightarrow> 'b \<Rightarrow> 'c) \<Rightarrow> 'a tensor \<Rightarrow> 'b tensor \<Rightarrow> error + 'c tensor" where
  "tensor_op2 f a b =
     (case broadcast_shapes (shape a) (shape b) of
        None \<Rightarrow> Inl RuntimeError
      | Some s \<Rightarrow>
          Inr (Tensor s (map2 f (data (broadcast_to a s)) (data (broadcast_to b s)))))"

text \<open>
  The in-place form (\<^verbatim>\<open>a &= b\<close>, \<^verbatim>\<open>masked_fill\<close>): the result keeps the
  shape of \<open>a\<close>, so \<open>b\<close> must broadcast to it.
\<close>

definition inplace_op2 ::
  "('a \<Rightarrow> 'b \<Rightarrow> 'a) \<Rightarrow> 'a tensor \<Rightarrow> 'b tensor \<Rightarrow> error + 'a tensor" where
  "inplace_op2 f a b =
     (if broadcast_shapes (shape a) (shape b) = Some (shape a)
      then Inr (Tensor (shape a) (map2 f (data a) (data (broadcast_to b (shape a)))))
      else Inl RuntimeError)"

text \<open>\<^verbatim>\<open>t[..., None]\<close>: a new last dimension of size one.\<close>

definition unsqueeze_last :: "'a tensor \<Rightarrow> 'a tensor" where
  "unsqueeze_last t = Tensor (shape t @ [1]) (data t)"

text \<open>\<^verbatim>\<open>.long()\<close>: conversion to a 64-bit integer truncates toward zero.\<close>

definition trunc :: "real \<Rightarrow> int" where
  "trunc x = (if 0 \<le> x then \<lfloor>x\<rfloor> else \<lceil>x\<rceil>)"

definition long :: "real tensor \<Rightarrow> int tensor" where
  "long t = map_tensor trunc t"

text \<open>
  \<^verbatim>\<open>torch.zeros(shape).float().uniform_(lo, hi)\<close>: one draw per element. The
  random source is explicit: \<open>u i\<close> is the \<open>i\<close>-th standard uniform draw.
\<close>

definition uniform :: "(nat \<Rightarrow> real) \<Rightarrow> real \<Rightarrow> real \<Rightarrow> nat list \<Rightarrow> real tensor" where
  "uniform u lo hi s = Tensor s (map (\<lambda>i. lo + (hi - lo) * u i) [0..<prod_list s])"

definition clamp_min :: "real \<Rightarrow> real tensor \<Rightarrow> real tensor" where
  "clamp_min m t = map_tensor (max m) t"

subsection \<open>Mask construction helpers (source lines 49--88)\<close>

definition prob_mask_like :: "(nat \<Rightarrow> real) \<Rightarrow> nat list \<Rightarrow> real \<Rightarrow> bool tensor" where
  "prob_mask_like u s prob =
     (if prob = 1 then Tensor s (replicate (prod_list s) True)
      else if prob = 0 then Tensor s (replicate (prod_list s) False)
      else map_tensor (\<lambda>r. r < prob) (uniform u 0 1 s))"

text \<open>
  \<^verbatim>\<open>mask_from_start_end_indices\<close>. \<open>start\<close> and \<open>end\<close> hold integers or floats;
  both are converted with \<^verbatim>\<open>.long()\<close> before the comparison.
\<close>

definition mask_from_start_end_indices ::
  "int \<Rightarrow> real tensor \<Rightarrow> real tensor \<Rightarrow> error + bool tensor" where
  "mask_from_start_end_indices seq_len start end' =
     (if shape start \<noteq> shape end' then Inl AssertionError
      else
        ebind (arange seq_len) (\<lambda>seq.
        ebind (reshape seq (replicate (ndim start) (- 1) @ [seq_len])) (\<lambda>seq.
        ebind (expand seq (shape start @ [nat seq_len])) (\<lambda>seq.
        ebind (tensor_op2 (\<lambda>p s. s \<le> p) seq (long (unsqueeze_last start))) (\<lambda>mask.
        ebind (tensor_op2 (\<lambda>p e. p < e) seq (long (unsqueeze_last end'))) (\<lambda>below.
        inplace_op2 (\<lambda>a b. a \<and> b) mask below))))))"

text \<open>
  \<^verbatim>\<open>mask_from_frac_lengths\<close>. \<open>u\<close> is the draw of
  \<^verbatim>\<open>torch.zeros_like(frac_lengths).float().uniform_(0, 1)\<close>.
\<close>

definition mask_from_frac_lengths ::
  "(nat \<Rightarrow> real) \<Rightarrow> int \<Rightarrow> real tensor \<Rightarrow> error + bool tensor" where
  "mask_from_frac_lengths u seq_len frac_lengths =
     (let lengths = long (map_tensor (\<lambda>f. f * of_int seq_len) frac_lengths);
          max_start = map_tensor (\<lambda>l. seq_len - l) lengths;
          rand = uniform u 0 1 (shape frac_lengths)
      in ebind (tensor_op2 (\<lambda>m r. of_int m * r) max_start rand) (\<lambda>scaled.
         let start = clamp_min 0 scaled
         in ebind (tensor_op2 (\<lambda>s l. s + of_int l) start lengths) (\<lambda>end'.
            mask_from_start_end_indices seq_len start end')))"

section \<open>Module construction\<close>

text \<open>
  A constructor returns the module it builds or the error it raises. A module
  is described by what the constructor stores: the shapes of its parameters
  and its sub-modules. The PyTorch constructors are modelled by their failure
  conditions: a tensor cannot be allocated with a negative size, and
  \<^verbatim>\<open>nn.Conv1d\<close> checks its groups.
\<close>

definition torch_alloc :: "int list \<Rightarrow> error + int list" where
  "torch_alloc dims = (if list_ex (\<lambda>d. d < 0) dims then Inl RuntimeError else Inr dims)"

record linear =
  weight_shape :: "int list"
  bias_shape :: "int list"

definition nn_Linear :: "int \<Rightarrow> int \<Rightarrow> error + linear" where
  "nn_Linear in_features out_features =
     ebind (torch_alloc [out_features, in_features]) (\<lambda>w.
     ebind (torch_alloc [out_features]) (\<lambda>b.
     Inr \<lparr>weight_shape = w, bias_shape = b\<rparr>))"

definition nn_Embedding :: "int \<Rightarrow> int \<Rightarrow> error + int list" where
  "nn_Embedding num_embeddings embedding_dim = torch_alloc [num_embeddings, embedding_dim]"

record conv1d =
  conv_weight_shape :: "int list"
  conv_bias_shape :: "int list"
  conv_padding :: int

definition nn_Conv1d :: "int \<Rightarrow> int \<Rightarrow> int \<Rightarrow> int \<Rightarrow> int \<Rightarrow> error + conv1d" where
  "nn_Conv1d in_channels out_channels kernel_size groups padding =
     (if groups \<le> 0 then Inl ValueError
      else if in_channels mod groups \<noteq> 0 then Inl ValueError
      else if out_channels mod groups \<noteq> 0 then Inl ValueError
      else
        ebind (torch_alloc [out_channels, in_channels div groups, kernel_size]) (\<lambda>w.
        ebind (torch_alloc [out_channels]) (\<lambda>b.
        Inr \<lparr>conv_weight_shape = w, conv_bias_shape = b, conv_padding = padding\<rparr>)))"

text \<open>
  Name lookup. These are the names the module binds at top level: its imports
  (source lines 1--19) and its own definitions. A name that is neither here nor
  a Python builtin is unresolved.
\<close>

definition module_globals :: "string list" where
  "module_globals =
     [''math'', ''partial'', ''random'', ''torch'', ''nn'', ''Tensor'', ''einsum'',
      ''Module'', ''F'', ''to'', ''odeint'', ''beartype'', ''Tuple'',
      ''rearrange'', ''repeat'', ''reduce'', ''pack'', ''unpack'', ''Attend'',
      ''exists'', ''identity'', ''default'', ''divisible_by'', ''is_odd'', ''coin_flip'',
      ''pack_one'', ''unpack_one'', ''prob_mask_like'', ''mask_from_start_end_indices'',
      ''mask_from_frac_lengths'', ''LearnedSinusoidalPosEmb'', ''RotaryEmbedding'',
      ''rotate_half'', ''apply_rotary_pos_emb'', ''ConvPositionEmbed'', ''RMSNorm'',
      ''Attention'', ''FeedForward'', ''Transformer'', ''DurationPredictor'', ''VoiceBox'',
      ''ConditionalFlowMatcherWrapper'']"

definition lookup_global :: "string \<Rightarrow> error + string" where
  "lookup_global name = (if name \<in> set module_globals then Inr name else Inl NameError)"

subsection \<open>\<^verbatim>\<open>LearnedSinusoidalPosEmb.__init__\<close> (source lines 95--99)\<close>

record sinusoidal_pos_emb =
  weights_shape :: "int list"

definition LearnedSinusoidalPosEmb_init :: "int \<Rightarrow> error + sinusoidal_pos_emb" where
  "LearnedSinusoidalPosEmb_init dim' =
     (if \<not> divisible_by dim' 2 then Inl AssertionError
      else
        let half_dim = dim' div 2
        in ebind (torch_alloc [half_dim]) (\<lambda>w. Inr \<lparr>weights_shape = w\<rparr>))"

subsection \<open>\<^verbatim>\<open>RotaryEmbedding.__init__\<close> (source lines 111--114)\<close>

text \<open>\<^verbatim>\<open>torch.arange(0, dim, 2)\<close> has \<open>ceil(dim / 2)\<close> elements and refuses \<open>dim < 0\<close>.\<close>

record rotary_embedding =
  inv_freq_shape :: "int list"

definition RotaryEmbedding_init :: "int \<Rightarrow> error + rotary_embedding" where
  "RotaryEmbedding_init dim' =
     (if dim' < 0 then Inl RuntimeError
      else Inr \<lparr>inv_freq_shape = [(dim' + 1) div 2]\<rparr>)"

subsection \<open>\<^verbatim>\<open>ConvPositionEmbed.__init__\<close> (source lines 136--150)\<close>

record conv_position_embed =
  dw_conv1d :: conv1d

definition ConvPositionEmbed_init ::
  "int \<Rightarrow> int \<Rightarrow> int option \<Rightarrow> error + conv_position_embed" where
  "ConvPositionEmbed_init dim' kernel_size groups =
     (if \<not> is_odd kernel_size then Inl AssertionError
      else
        let groups = default_val groups dim'
        in ebind (nn_Conv1d dim' dim' kernel_size groups (kernel_size div 2)) (\<lambda>conv.
           Inr \<lparr>dw_conv1d = conv\<rparr>))"

subsection \<open>\<^verbatim>\<open>RMSNorm\<close>, \<^verbatim>\<open>Attention\<close>, \<^verbatim>\<open>FeedForward\<close> (source lines 159--213)\<close>

record rms_norm =
  gamma_shape :: "int list"

text \<open>\<^verbatim>\<open>dim ** 0.5\<close> never raises; \<^verbatim>\<open>torch.ones(dim)\<close> allocates.\<close>

definition RMSNorm_init :: "int \<Rightarrow> error + rms_norm" where
  "RMSNorm_init dim' = ebind (torch_alloc [dim']) (\<lambda>g. Inr \<lparr>gamma_shape = g\<rparr>)"

record attention =
  attn_heads :: int
  attn_norm :: rms_norm
  to_qkv :: linear
  to_out :: linear

text \<open>
  \<^verbatim>\<open>Attend\<close> is imported from \<^verbatim>\<open>voicebox_pytorch.attend\<close>, which is not among the
  sources; what its constructor does with the \<^verbatim>\<open>flash\<close> flag is the parameter
  \<open>Attend_init\<close>. \<^verbatim>\<open>dim_head ** -0.5\<close> raises for \<open>dim_head = 0\<close>.
\<close>

definition Attention_init ::
  "(bool \<Rightarrow> error + unit) \<Rightarrow> int \<Rightarrow> int \<Rightarrow> int \<Rightarrow> bool \<Rightarrow> error + attention" where
  "Attention_init Attend_init dim' dim_head heads flash =
     (if dim_head = 0 then Inl ZeroDivisionError
      else
        let dim_inner = dim_head * heads
        in ebind (Attend_init flash) (\<lambda>attend.
           ebind (RMSNorm_init dim') (\<lambda>norm.
           ebind (nn_Linear dim' (dim_inner * 3)) (\<lambda>qkv.
           ebind (nn_Linear dim_inner dim') (\<lambda>out.
           Inr \<lparr>attn_heads = heads, attn_norm = norm, to_qkv = qkv, to_out = out\<rparr>)))))"

record feed_forward =
  ff_norm :: rms_norm
  ff_in :: linear
  ff_out :: linear

definition FeedForward :: "int \<Rightarrow> int \<Rightarrow> error + feed_forward" where
  "FeedForward dim' mult =
     ebind (RMSNorm_init dim') (\<lambda>norm.
     ebind (nn_Linear dim' (dim' * mult)) (\<lambda>l1.
     ebind (nn_Linear (dim' * mult) dim') (\<lambda>l2.
     Inr \<lparr>ff_norm = norm, ff_in = l1, ff_out = l2\<rparr>)))"

subsection \<open>\<^verbatim>\<open>Transformer.__init__\<close> (source lines 218--245)\<close>

record layer =
  skip_combiner :: "linear option"
  attn :: attention
  ff :: feed_forward

record transformer =
  layers :: "layer list"
  rotary_emb :: rotary_embedding
  final_norm :: rms_norm

text \<open>The loop \<^verbatim>\<open>for ind in range(depth)\<close>: the first error ends it.\<close>

fun build_layers ::
  "(bool \<Rightarrow> error + unit) \<Rightarrow> int \<Rightarrow> int \<Rightarrow> int \<Rightarrow> int \<Rightarrow> int \<Rightarrow> bool \<Rightarrow> nat list
     \<Rightarrow> error + layer list" where
  "build_layers Attend_init dim' depth dim_head heads ff_mult attn_flash [] = Inr []"
| "build_layers Attend_init dim' depth dim_head heads ff_mult attn_flash (ind # inds) =
     (let layer = int ind + 1;
          has_skip = (layer > depth div 2)
      in ebind (if has_skip then ebind (nn_Linear (dim' * 2) dim') (\<lambda>l. Inr (Some l))
                else Inr None) (\<lambda>skip.
         ebind (Attention_init Attend_init dim' dim_head heads attn_flash) (\<lambda>a.
         ebind (FeedForward dim' ff_mult) (\<lambda>f.
         ebind (build_layers Attend_init dim' depth dim_head heads ff_mult attn_flash inds) (\<lambda>rest.
         Inr (\<lparr>skip_combiner = skip, attn = a, ff = f\<rparr> # rest))))))"

definition Transformer_init ::
  "(bool \<Rightarrow> error + unit) \<Rightarrow> int \<Rightarrow> int \<Rightarrow> int \<Rightarrow> int \<Rightarrow> int \<Rightarrow> bool \<Rightarrow> error + transformer" where
  "Transformer_init Attend_init dim' depth dim_head heads ff_mult attn_flash =
     (if \<not> divisible_by depth 2 then Inl AssertionError
      else
        ebind (RotaryEmbedding_init dim_head) (\<lambda>rot.
        ebind (build_layers Attend_init dim' depth dim_head heads ff_mult attn_flash
                 [0..<nat depth]) (\<lambda>ls.
        ebind (RMSNorm_init dim') (\<lambda>norm.
        Inr \<lparr>layers = ls, rotary_emb = rot, final_norm = norm\<rparr>))))"

subsection \<open>\<^verbatim>\<open>DurationPredictor.__init__\<close> (source lines 271--317)\<close>

text \<open>
  The learned layers of a predictor compute functions on tensors that depend on
  their weights; the model takes these functions as they are (\<open>learned\<close>),
  each returning its output or the error it raises. The time embedding
  \<open>sinu_pos_emb\<close> belongs to the VoiceBox predictor only.
\<close>

type_synonym 'a net = "'a tensor \<Rightarrow> error + real tensor"

record learned =
  to_phoneme_emb :: "int net"
  to_embed :: "real net"
  conv_embed :: "real net"
  sinu_pos_emb :: "real net"
  transformer_net :: "real net"
  to_pred :: "real net"

record predictor_args =
  num_phoneme_tokens :: int
  dim_phoneme_emb :: int
  dim' :: int
  depth :: int
  dim_head :: int
  heads :: int
  ff_mult :: int
  conv_pos_embed_kernel_size :: int
  conv_pos_embed_groups :: "int option"
  attn_flash :: bool
  p_drop_prob :: real
  frac_lengths_mask :: "real \<times> real"

text \<open>The keyword defaults of \<^verbatim>\<open>DurationPredictor.__init__\<close>.\<close>

definition DurationPredictor_defaults :: "int \<Rightarrow> predictor_args" where
  "DurationPredictor_defaults n =
     \<lparr>num_phoneme_tokens = n, dim_phoneme_emb = 512, dim' = 512, depth = 10,
      dim_head = 64, heads = 8, ff_mult = 4, conv_pos_embed_kernel_size = 31,
      conv_pos_embed_groups = None, attn_flash = False, p_drop_prob = 0.2,
      frac_lengths_mask = (0.1, 1)\<rparr>"

record predictor =
  null_phoneme_id :: int
  drop_prob :: real
  frac_range :: "real \<times> real"
  null_cond :: "real tensor"
  nets :: learned

text \<open>
  The constructor builds the sub-modules in the order of the source. The last
  one, \<^verbatim>\<open>nn.Sequential(nn.Linear(dim, 1), Rearrange('... 1 -> ...'))\<close>, evaluates
  \<^verbatim>\<open>nn.Linear(dim, 1)\<close> and then looks up the name \<^verbatim>\<open>Rearrange\<close>.
\<close>

definition DurationPredictor_init ::
  "(bool \<Rightarrow> error + unit) \<Rightarrow> learned \<Rightarrow> predictor_args \<Rightarrow> error + predictor" where
  "DurationPredictor_init Attend_init fs a =
     ebind (nn_Embedding (num_phoneme_tokens a + 1) (dim_phoneme_emb a)) (\<lambda>emb.
     ebind (nn_Linear (dim' a * 2 + dim_phoneme_emb a) (dim' a)) (\<lambda>embed.
     ebind (torch_alloc [dim' a]) (\<lambda>zeros.
     ebind (ConvPositionEmbed_init (dim' a) (conv_pos_embed_kernel_size a)
              (conv_pos_embed_groups a)) (\<lambda>conv.
     ebind (Transformer_init Attend_init (dim' a) (depth a) (dim_head a) (heads a)
              (ff_mult a) (attn_flash a)) (\<lambda>tr.
     ebind (nn_Linear (dim' a) 1) (\<lambda>lin.
     ebind (lookup_global ''Rearrange'') (\<lambda>rearr.
     Inr \<lparr>null_phoneme_id = num_phoneme_tokens a,
          drop_prob = p_drop_prob a,
          frac_range = frac_lengths_mask a,
          null_cond = Tensor [nat (dim' a)] (replicate (nat (dim' a)) 0),
          nets = fs\<rparr>)))))))"

section \<open>The predictors\<close>

subsection \<open>Tensor operations of the forward passes\<close>

text \<open>\<^verbatim>\<open>uniform_(lo, hi)\<close> refuses a range with \<open>lo > hi\<close>.\<close>

definition uniform_range ::
  "(nat \<Rightarrow> real) \<Rightarrow> real \<Rightarrow> real \<Rightarrow> nat list \<Rightarrow> error + real tensor" where
  "uniform_range u lo hi s = (if hi < lo then Inl RuntimeError else Inr (uniform u lo hi s))"

text \<open>\<^verbatim>\<open>torch.where(c, a, b)\<close>: the three operands are broadcast together.\<close>

definition tensor_where :: "bool tensor \<Rightarrow> 'a tensor \<Rightarrow> 'a tensor \<Rightarrow> error + 'a tensor" where
  "tensor_where c a b =
     (case broadcast_shapes (shape c) (shape a) of
        None \<Rightarrow> Inl RuntimeError
      | Some s1 \<Rightarrow>
          (case broadcast_shapes s1 (shape b) of
             None \<Rightarrow> Inl RuntimeError
           | Some s \<Rightarrow>
               Inr (Tensor s
                 (map (\<lambda>j. if data (broadcast_to c s) ! j
                            then data (broadcast_to a s) ! j
                            else data (broadcast_to b s) ! j)
                    [0..<prod_list s]))))"

text \<open>\<open>block k i xs\<close> is the \<open>i\<close>-th run of \<open>k\<close> consecutive elements.\<close>

definition block :: "nat \<Rightarrow> nat \<Rightarrow> 'a list \<Rightarrow> 'a list" where
  "block k i xs = take k (drop (i * k) xs)"

text \<open>
  \<^verbatim>\<open>torch.cat(ts, dim = -1)\<close>: the tensors agree in all but the last
  dimension.
\<close>

definition cat_last :: "'a tensor list \<Rightarrow> error + 'a tensor" where
  "cat_last ts =
     (case ts of
        [] \<Rightarrow> Inl RuntimeError
      | t # _ \<Rightarrow>
          if list_ex (\<lambda>t'. shape t' = []) ts then Inl RuntimeError
          else if list_ex (\<lambda>t'. butlast (shape t') \<noteq> butlast (shape t)) ts
          then Inl RuntimeError
          else Inr (Tensor (butlast (shape t) @ [sum_list (map (\<lambda>t'. last (shape t')) ts)])
                 (concat (map (\<lambda>r. concat (map (\<lambda>t'. block (last (shape t')) r (data t')) ts))
                    [0..<prod_list (butlast (shape t))]))))"

text \<open>
  \<^verbatim>\<open>pack((time_emb, x), 'b * d')\<close>: each tensor has at least the two
  dimensions \<open>b\<close> and \<open>d\<close>; the dimensions between them are flattened and the
  tensors concatenated along them. The second component is the list of the
  flattened shapes.
\<close>

definition middle :: "nat list \<Rightarrow> nat list" where
  "middle s = butlast (tl s)"

definition pack_b_star_d ::
  "'a tensor \<Rightarrow> 'a tensor \<Rightarrow> error + ('a tensor \<times> nat list list)" where
  "pack_b_star_d t1 t2 =
     (if length (shape t1) < 2 \<or> length (shape t2) < 2 then Inl EinopsError
      else if hd (shape t1) \<noteq> hd (shape t2) then Inl RuntimeError
      else if last (shape t1) \<noteq> last (shape t2) then Inl RuntimeError
      else
        let b = hd (shape t1);
            d = last (shape t1);
            n1 = prod_list (middle (shape t1));
            n2 = prod_list (middle (shape t2))
        in Inr (Tensor [b, n1 + n2, d]
                  (concat (map (\<lambda>i. block (n1 * d) i (data t1) @ block (n2 * d) i (data t2))
                     [0..<b])),
                [middle (shape t1), middle (shape t2)]))"

text \<open>
  \<^verbatim>\<open>_, x = unpack(x, ps, 'b * d')\<close>: the packed dimension is split by the
  sizes of \<open>ps\<close>; the second part is returned in its original shape.
\<close>

definition unpack_second :: "'a tensor \<Rightarrow> nat list list \<Rightarrow> error + 'a tensor" where
  "unpack_second t ps =
     (case (shape t, ps) of
        ([b, n, d], [p1, p2]) \<Rightarrow>
          if prod_list p1 + prod_list p2 \<noteq> n then Inl EinopsError
          else Inr (Tensor ([b] @ p2 @ [d])
                 (concat (map (\<lambda>i. take (prod_list p2 * d)
                                     (drop ((i * n + prod_list p1) * d) (data t)))
                    [0..<b])))
      | _ \<Rightarrow> Inl EinopsError)"

text \<open>
  A float that may be NaN: a mean over no element is NaN in PyTorch (no
  exception is raised), and NaN spreads through sums and quotients.
\<close>

type_synonym fl = "real option"

definition fl_sum :: "fl list \<Rightarrow> fl" where
  "fl_sum xs = (if None \<in> set xs then None else Some (sum_list (map the xs)))"

definition fl_mean :: "fl list \<Rightarrow> fl" where
  "fl_mean xs =
     (if xs = [] then None
      else map_option (\<lambda>v. v / real (length xs)) (fl_sum xs))"

text \<open>A forward pass returns the predictions or the scalar loss.\<close>

datatype fwd_result = Logits "real tensor" | Loss fl

text \<open>\<^verbatim>\<open>reduce(loss, 'b n d -> b n', 'mean')\<close>.\<close>

definition reduce_mean_channels :: "real tensor \<Rightarrow> error + fl tensor" where
  "reduce_mean_channels t =
     (case shape t of
        [b, n, d] \<Rightarrow>
          Inr (Tensor [b, n] (map (\<lambda>r. fl_mean (map Some (block d r (data t)))) [0..<b * n]))
      | _ \<Rightarrow> Inl EinopsError)"

text \<open>\<^verbatim>\<open>loss.masked_fill(mask, 0.)\<close>: the mask broadcasts to the shape of the loss.\<close>

definition masked_fill :: "fl tensor \<Rightarrow> bool tensor \<Rightarrow> error + fl tensor" where
  "masked_fill loss mask' = inplace_op2 (\<lambda>l m. if m then Some 0 else l) loss mask'"

text \<open>\<^verbatim>\<open>reduce(loss, 'b n -> b', 'sum')\<close>.\<close>

definition reduce_sum_rows :: "fl tensor \<Rightarrow> error + fl tensor" where
  "reduce_sum_rows t =
     (case shape t of
        [b, n] \<Rightarrow> Inr (Tensor [b] (map (\<lambda>i. fl_sum (block n i (data t))) [0..<b]))
      | _ \<Rightarrow> Inl EinopsError)"

text \<open>\<^verbatim>\<open>mask.sum(dim = -1)\<close>: the number of true entries of every row.\<close>

definition sum_last :: "bool tensor \<Rightarrow> error + real tensor" where
  "sum_last mask' =
     (if shape mask' = [] then Inl IndexError
      else Inr (Tensor (butlast (shape mask'))
             (map (\<lambda>r. real (length (filter id (block (last (shape mask')) r (data mask')))))
                [0..<prod_list (butlast (shape mask'))])))"

text \<open>
  The masked mean of both predictors (source lines 395--399 and 552--556):
  \<^verbatim>\<open>num = reduce(loss, 'b n -> b', 'sum')\<close>,
  \<^verbatim>\<open>den = mask.sum(dim = -1).clamp(min = 1e-5)\<close>, \<^verbatim>\<open>loss = num / den\<close>,
  \<^verbatim>\<open>return loss.mean()\<close>.
\<close>

definition masked_mean :: "fl tensor \<Rightarrow> bool tensor \<Rightarrow> error + fwd_result" where
  "masked_mean loss mask' =
     ebind (reduce_sum_rows loss) (\<lambda>num.
     ebind (sum_last mask') (\<lambda>count.
     let den = clamp_min (1 / 100000) count
     in ebind (tensor_op2 (\<lambda>a d. map_option (\<lambda>v. v / d) a) num den) (\<lambda>loss.
        Inr (Loss (fl_mean (data loss))))))"

text \<open>
  \<^verbatim>\<open>F.l1_loss\<close> and \<^verbatim>\<open>F.mse_loss\<close> with \<^verbatim>\<open>reduction = 'none'\<close>: elementwise,
  with broadcasting. Both read \<^verbatim>\<open>target.size()\<close> first, which raises when the
  target is \<^verbatim>\<open>None\<close>.
\<close>

definition l1_loss_none :: "real tensor \<Rightarrow> real tensor option \<Rightarrow> error + real tensor" where
  "l1_loss_none x target =
     (case target of
        None \<Rightarrow> Inl AttributeError
      | Some t \<Rightarrow> tensor_op2 (\<lambda>a b. \<bar>a - b\<bar>) x t)"

definition mse_loss_none :: "real tensor \<Rightarrow> real tensor option \<Rightarrow> error + real tensor" where
  "mse_loss_none x target =
     (case target of
        None \<Rightarrow> Inl AttributeError
      | Some t \<Rightarrow> tensor_op2 (\<lambda>a b. (a - b)\<^sup>2) x t)"

text \<open>The same with the default \<^verbatim>\<open>reduction = 'mean'\<close>: the mean over all elements.\<close>

definition l1_loss :: "real tensor \<Rightarrow> real tensor option \<Rightarrow> error + fwd_result" where
  "l1_loss x target =
     ebind (l1_loss_none x target) (\<lambda>l. Inr (Loss (fl_mean (map Some (data l)))))"

definition mse_loss :: "real tensor \<Rightarrow> real tensor option \<Rightarrow> error + fwd_result" where
  "mse_loss x target =
     ebind (mse_loss_none x target) (\<lambda>l. Inr (Loss (fl_mean (map Some (data l)))))"

subsection \<open>Random draws of one forward pass\<close>

record draws =
  coin :: real
  frac_u :: "nat \<Rightarrow> real"
  span_u :: "nat \<Rightarrow> real"
  mask_u :: "nat \<Rightarrow> real"
  drop_u :: "nat \<Rightarrow> real"

subsection \<open>Steps shared by both forward passes\<close>

text \<open>Constructing the mask when none is given (source lines 353--358, 492--497).\<close>

definition construct_mask ::
  "predictor \<Rightarrow> draws \<Rightarrow> nat \<Rightarrow> nat \<Rightarrow> bool tensor option \<Rightarrow> error + bool tensor option" where
  "construct_mask p dr batch seq_len mask' =
     (if \<not> exists_val mask' then
        (if coin_flip (coin dr) then
           ebind (uniform_range (frac_u dr) (fst (frac_range p)) (snd (frac_range p)) [batch])
             (\<lambda>frac_lengths.
           ebind (mask_from_frac_lengths (span_u dr) (int seq_len) frac_lengths) (\<lambda>m.
           Inr (Some m)))
         else Inr (Some (prob_mask_like (mask_u dr) [batch, seq_len] (drop_prob p))))
      else Inr mask')"

text \<open>Classifier free guidance dropout (source lines 362--375, 501--514).\<close>

definition drop_condition ::
  "predictor \<Rightarrow> draws \<Rightarrow> real \<Rightarrow> real tensor \<Rightarrow> int tensor
     \<Rightarrow> error + (real tensor \<times> int tensor)" where
  "drop_condition p dr cond_drop_prob cond phoneme_ids =
     (if cond_drop_prob > 0 then
        let cond_drop_mask = prob_mask_like (drop_u dr) (take 1 (shape cond)) cond_drop_prob
        in ebind (tensor_where
                    (Tensor (shape cond_drop_mask @ [1, 1]) (data cond_drop_mask))
                    (null_cond p) cond) (\<lambda>cond.
           ebind (tensor_where
                    (Tensor (shape cond_drop_mask @ [1]) (data cond_drop_mask))
                    (Tensor [] [null_phoneme_id p]) phoneme_ids) (\<lambda>phoneme_ids.
           Inr (cond, phoneme_ids)))
      else Inr (cond, phoneme_ids))"

text \<open>Time broadcasting (source lines 484--488).\<close>

definition broadcast_times :: "real tensor \<Rightarrow> nat \<Rightarrow> real tensor" where
  "broadcast_times times' batch =
     (let times' = (if ndim times' = 0 then Tensor [batch] (replicate batch (data times' ! 0))
                    else times')
      in if shape times' = [1] then Tensor [batch] (replicate batch (data times' ! 0))
         else times')"

subsection \<open>\<^verbatim>\<open>DurationPredictor.forward\<close> (source lines 338--399)\<close>

definition DurationPredictor_forward ::
  "predictor \<Rightarrow> draws \<Rightarrow> real tensor \<Rightarrow> int tensor \<Rightarrow> real tensor \<Rightarrow> real
     \<Rightarrow> real tensor option \<Rightarrow> bool tensor option \<Rightarrow> error + fwd_result" where
  "DurationPredictor_forward dp dr x phoneme_ids cond cond_drop_prob target mask' =
     (case shape cond of
        [batch, seq_len, cond_dim] \<Rightarrow>
          if shape x = [] then Inl IndexError
          else if cond_dim \<noteq> last (shape x) then Inl AssertionError
          else
            ebind (construct_mask dp dr batch seq_len mask') (\<lambda>mask'.
            ebind (drop_condition dp dr cond_drop_prob cond phoneme_ids) (\<lambda>(cond, phoneme_ids).
            ebind (to_phoneme_emb (nets dp) phoneme_ids) (\<lambda>phoneme_emb.
            ebind (cat_last [x, phoneme_emb, cond]) (\<lambda>embed.
            ebind (to_embed (nets dp) embed) (\<lambda>x.
            ebind (conv_embed (nets dp) x) (\<lambda>c.
            ebind (tensor_op2 (+) c x) (\<lambda>x.
            ebind (transformer_net (nets dp) x) (\<lambda>x.
            if \<not> exists_val mask' then l1_loss x target
            else
              ebind (l1_loss_none x target) (\<lambda>loss.
              ebind (masked_fill (map_tensor Some loss) (the mask')) (\<lambda>loss.
              masked_mean loss (the mask')))))))))))
      | _ \<Rightarrow> Inl ValueError)"

subsection \<open>\<^verbatim>\<open>VoiceBox.forward\<close> (source lines 468--556)\<close>

definition VoiceBox_forward ::
  "predictor \<Rightarrow> draws \<Rightarrow> real tensor \<Rightarrow> int tensor \<Rightarrow> real tensor \<Rightarrow> real tensor \<Rightarrow> real
     \<Rightarrow> real tensor option \<Rightarrow> bool tensor option \<Rightarrow> error + fwd_result" where
  "VoiceBox_forward vb dr x phoneme_ids cond times' cond_drop_prob target mask' =
     (case shape cond of
        [batch, seq_len, cond_dim] \<Rightarrow>
          if shape x = [] then Inl IndexError
          else if cond_dim \<noteq> last (shape x) then Inl AssertionError
          else
            let times' = broadcast_times times' batch
            in ebind (construct_mask vb dr batch seq_len mask') (\<lambda>mask'.
               ebind (drop_condition vb dr cond_drop_prob cond phoneme_ids)
                 (\<lambda>(cond, phoneme_ids).
               ebind (to_phoneme_emb (nets vb) phoneme_ids) (\<lambda>phoneme_emb.
               ebind (cat_last [x, phoneme_emb, cond]) (\<lambda>embed.
               ebind (to_embed (nets vb) embed) (\<lambda>x.
               ebind (conv_embed (nets vb) x) (\<lambda>c.
               ebind (tensor_op2 (+) c x) (\<lambda>x.
               ebind (sinu_pos_emb (nets vb) times') (\<lambda>time_emb.
               ebind (pack_b_star_d time_emb x) (\<lambda>(x, ps).
               ebind (transformer_net (nets vb) x) (\<lambda>x.
               ebind (to_pred (nets vb) x) (\<lambda>x.
               ebind (unpack_second x ps) (\<lambda>x.
               if \<not> exists_val target then Inr (Logits x)
               else if \<not> exists_val mask' then mse_loss x target
               else
                 ebind (mse_loss_none x target) (\<lambda>loss.
                 ebind (reduce_mean_channels loss) (\<lambda>loss.
                 ebind (masked_fill loss (the mask')) (\<lambda>loss.
                 masked_mean loss (the mask'))))))))))))))))
      | _ \<Rightarrow> Inl ValueError)"

subsection \<open>\<^verbatim>\<open>forward_with_cond_scale\<close> (source lines 323--336, 453--466)\<close>

text \<open>
  \<^verbatim>\<open>null_logits + (logits - null_logits) * cond_scale\<close>. Both passes are given the
  same target, so both results are predictions or both are losses; the mixed
  case does not arise and is marked by an error.
\<close>

definition guidance :: "fwd_result \<Rightarrow> fwd_result \<Rightarrow> real \<Rightarrow> error + fwd_result" where
  "guidance null_logits logits cond_scale =
     (case (null_logits, logits) of
        (Logits n, Logits l) \<Rightarrow>
          ebind (tensor_op2 (-) l n) (\<lambda>diff.
          ebind (tensor_op2 (+) n (map_tensor (\<lambda>v. v * cond_scale) diff)) (\<lambda>r.
          Inr (Logits r)))
      | (Loss n, Loss l) \<Rightarrow>
          Inr (Loss (case (n, l) of
                       (Some a, Some b) \<Rightarrow> Some (a + (b - a) * cond_scale)
                     | _ \<Rightarrow> None))
      | _ \<Rightarrow> Inl RuntimeError)"

text \<open>
  The two passes draw their random numbers one after the other: \<open>dr\<close> for the
  conditioned pass, \<open>dr'\<close> for the unconditioned one.
\<close>

definition DurationPredictor_forward_with_cond_scale ::
  "predictor \<Rightarrow> draws \<Rightarrow> draws \<Rightarrow> real tensor \<Rightarrow> int tensor \<Rightarrow> real tensor \<Rightarrow> real
     \<Rightarrow> real tensor option \<Rightarrow> bool tensor option \<Rightarrow> error + fwd_result" where
  "DurationPredictor_forward_with_cond_scale dp dr dr' x phoneme_ids cond cond_scale
       target mask' =
     ebind (DurationPredictor_forward dp dr x phoneme_ids cond 0 target mask') (\<lambda>logits.
     if cond_scale = 1 then Inr logits
     else
       ebind (DurationPredictor_forward dp dr' x phoneme_ids cond 1 target mask')
         (\<lambda>null_logits.
       guidance null_logits logits cond_scale))"

definition VoiceBox_forward_with_cond_scale ::
  "predictor \<Rightarrow> draws \<Rightarrow> draws \<Rightarrow> real tensor \<Rightarrow> int tensor \<Rightarrow> real tensor \<Rightarrow> real tensor
     \<Rightarrow> real \<Rightarrow> real tensor option \<Rightarrow> bool tensor option \<Rightarrow> error + fwd_result" where
  "VoiceBox_forward_with_cond_scale vb dr dr' x phoneme_ids cond times' cond_scale
       target mask' =
     ebind (VoiceBox_forward vb dr x phoneme_ids cond times' 0 target mask') (\<lambda>logits.
     if cond_scale = 1 then Inr logits
     else
       ebind (VoiceBox_forward vb dr' x phoneme_ids cond times' 1 target mask')
         (\<lambda>null_logits.
       guidance null_logits logits cond_scale))"

section \<open>The conditional flow matcher (source lines 560--705)\<close>

record flow_matcher =
  sigma :: real
  voicebox :: predictor
  cfm_cond_drop_prob :: real
  use_torchode :: bool
  ode_atol :: real
  ode_rtol :: real
  ode_step_size :: real
  torchdiffeq_ode_method :: string

text \<open>\<^verbatim>\<open>torch.randn_like(t)\<close>: \<open>noise i\<close> is the \<open>i\<close>-th standard normal draw.\<close>

definition randn_like :: "(nat \<Rightarrow> real) \<Rightarrow> 'a tensor \<Rightarrow> real tensor" where
  "randn_like noise t = Tensor (shape t) (map noise [0..<prod_list (shape t)])"

subsection \<open>Training: \<^verbatim>\<open>ConditionalFlowMatcherWrapper.forward\<close>\<close>

text \<open>Source line 687: \<^verbatim>\<open>w = (1 - (1 - \<sigma>) * t) * x0 + t * x1\<close>.\<close>

definition interpolant ::
  "real \<Rightarrow> real tensor \<Rightarrow> real tensor \<Rightarrow> real tensor \<Rightarrow> error + real tensor" where
  "interpolant \<sigma> t x0 x1 =
     ebind (tensor_op2 (\<lambda>c v. c * v) (map_tensor (\<lambda>v. 1 - (1 - \<sigma>) * v) t) x0) (\<lambda>a.
     ebind (tensor_op2 (\<lambda>c v. c * v) t x1) (\<lambda>b.
     tensor_op2 (+) a b))"

text \<open>Source line 689: \<^verbatim>\<open>flow = x1 - (1 - \<sigma>) * x0\<close>.\<close>

definition flow_target :: "real \<Rightarrow> real tensor \<Rightarrow> real tensor \<Rightarrow> error + real tensor" where
  "flow_target \<sigma> x0 x1 = tensor_op2 (-) x1 (map_tensor (\<lambda>v. (1 - \<sigma>) * v) x0)"

text \<open>
  \<open>noise\<close> is the draw of \<^verbatim>\<open>torch.randn_like(x1)\<close>, \<open>time_u\<close> the draw of
  \<^verbatim>\<open>torch.rand((batch,))\<close> and \<open>dr\<close> the draws of the predictor's pass.
\<close>

definition ConditionalFlowMatcherWrapper_forward ::
  "flow_matcher \<Rightarrow> (nat \<Rightarrow> real) \<Rightarrow> (nat \<Rightarrow> real) \<Rightarrow> draws \<Rightarrow> real tensor \<Rightarrow> int tensor
     \<Rightarrow> real tensor \<Rightarrow> bool tensor option \<Rightarrow> error + fwd_result" where
  "ConditionalFlowMatcherWrapper_forward cfm noise time_u dr x1 phoneme_ids cond mask' =
     (if length (shape x1) < 2 then Inl ValueError
      else
        let batch = shape x1 ! 0;
            \<sigma> = sigma cfm;
            x0 = randn_like noise x1;
            times' = Tensor [batch] (map time_u [0..<batch]);
            t = Tensor [batch, 1, 1] (data times')
        in ebind (interpolant \<sigma> t x0 x1) (\<lambda>w.
           ebind (flow_target \<sigma> x0 x1) (\<lambda>flow.
           VoiceBox_forward (voicebox cfm) dr w phoneme_ids cond times'
             (cfm_cond_drop_prob cfm) (Some flow) mask')))"

subsection \<open>Sampling: \<^verbatim>\<open>ConditionalFlowMatcherWrapper.sample\<close>\<close>

text \<open>
  The ODE solvers are libraries outside the repository. A solver is given the
  velocity field, which takes the random draws of its two predictor passes
  as its first argument; which draws each of its calls to the field gets is
  part of the solver parameter. \<open>odeint\<close> returns the trajectory (one state per
  time point), \<open>torchode_solve\<close> stands for the chain \<^verbatim>\<open>ODETerm\<close>,
  \<^verbatim>\<open>torchode_method_klass\<close>, \<^verbatim>\<open>IntegralController\<close>, \<^verbatim>\<open>AutoDiffAdjoint\<close>,
  \<^verbatim>\<open>torch.compile\<close>, \<^verbatim>\<open>solve\<close> and returns \<^verbatim>\<open>sol.ys\<close>.
\<close>

type_synonym field = "draws \<times> draws \<Rightarrow> real tensor \<Rightarrow> real tensor \<Rightarrow> error + real tensor"

record solvers =
  odeint :: "field \<Rightarrow> real tensor \<Rightarrow> real tensor \<Rightarrow> real \<times> real \<times> string \<times> real
               \<Rightarrow> error + real tensor"
  torchode_solve :: "field \<Rightarrow> real \<Rightarrow> real \<Rightarrow> real tensor \<Rightarrow> real tensor \<Rightarrow> error + real tensor"

text \<open>\<^verbatim>\<open>pack_one(t, 'b *')\<close>, \<^verbatim>\<open>unpack_one(t, ps, 'b *')\<close> and
  \<^verbatim>\<open>rearrange(t, 'b ... -> b (...)')\<close>.\<close>

definition pack_one :: "'a tensor \<Rightarrow> error + ('a tensor \<times> nat list list)" where
  "pack_one t =
     (case shape t of
        [] \<Rightarrow> Inl EinopsError
      | b # rest \<Rightarrow> Inr (Tensor [b, prod_list rest] (data t), [rest]))"

definition unpack_one :: "'a tensor \<Rightarrow> nat list list \<Rightarrow> error + 'a tensor" where
  "unpack_one t ps =
     (case (shape t, ps) of
        ([b, n], [p]) \<Rightarrow>
          if prod_list p \<noteq> n then Inl EinopsError else Inr (Tensor (b # p) (data t))
      | _ \<Rightarrow> Inl EinopsError)"

definition flatten_batch :: "'a tensor \<Rightarrow> error + 'a tensor" where
  "flatten_batch t =
     (case shape t of
        [] \<Rightarrow> Inl EinopsError
      | b # rest \<Rightarrow> Inr (Tensor [b, prod_list rest] (data t)))"

text \<open>\<^verbatim>\<open>torch.linspace(0, 1, steps)\<close>.\<close>

definition linspace01 :: "int \<Rightarrow> error + real tensor" where
  "linspace01 steps =
     (if steps < 0 then Inl RuntimeError
      else Inr (Tensor [nat steps]
             (map (\<lambda>i. if steps = 1 then 0 else real i / real_of_int (steps - 1))
                [0..<nat steps])))"

text \<open>\<^verbatim>\<open>trajectory[-1]\<close> and \<^verbatim>\<open>sol.ys[:, -1]\<close>.\<close>

definition select_last0 :: "'a tensor \<Rightarrow> error + 'a tensor" where
  "select_last0 t =
     (case shape t of
        [] \<Rightarrow> Inl IndexError
      | n # rest \<Rightarrow>
          if n = 0 then Inl IndexError
          else Inr (Tensor rest (block (prod_list rest) (n - 1) (data t))))"

definition select_last1 :: "'a tensor \<Rightarrow> error + 'a tensor" where
  "select_last1 t =
     (case shape t of
        b # n # rest \<Rightarrow>
          if n = 0 then Inl IndexError
          else Inr (Tensor (b # rest)
                 (concat (map (\<lambda>i. block (prod_list rest) (i * n + (n - 1)) (data t)) [0..<b])))
      | _ \<Rightarrow> Inl IndexError)"

text \<open>
  The callback \<^verbatim>\<open>fn(t, x, *, packed_shape = None)\<close> of \<^verbatim>\<open>sample\<close>. It calls the
  predictor without target and without mask, so the pass returns predictions.
\<close>

definition sample_fn ::
  "predictor \<Rightarrow> int tensor \<Rightarrow> real tensor \<Rightarrow> real \<Rightarrow> nat list list option \<Rightarrow> field" where
  "sample_fn vb phoneme_ids cond cond_scale packed_shape drs t x =
     ebind (if exists_val packed_shape then unpack_one x (the packed_shape) else Inr x) (\<lambda>x.
     ebind (VoiceBox_forward_with_cond_scale vb (fst drs) (snd drs) x phoneme_ids cond t
              cond_scale None None) (\<lambda>out.
     case out of
       Logits out \<Rightarrow> if exists_val packed_shape then flatten_batch out else Inr out
     | Loss l \<Rightarrow> Inl RuntimeError))"

definition sample ::
  "solvers \<Rightarrow> flow_matcher \<Rightarrow> (nat \<Rightarrow> real) \<Rightarrow> int tensor \<Rightarrow> real tensor \<Rightarrow> bool tensor option
     \<Rightarrow> int \<Rightarrow> real \<Rightarrow> error + real tensor" where
  "sample slv cfm noise phoneme_ids cond mask' steps cond_scale =
     (case shape cond of
        [] \<Rightarrow> Inl IndexError
      | batch # rest \<Rightarrow>
          let fn = sample_fn (voicebox cfm) phoneme_ids cond cond_scale;
              y0 = randn_like noise cond
          in ebind (linspace01 steps) (\<lambda>t.
             if \<not> use_torchode cfm then
               ebind (odeint slv (fn None) y0 t
                        (ode_atol cfm, ode_rtol cfm, torchdiffeq_ode_method cfm,
                         ode_step_size cfm)) (\<lambda>trajectory.
               select_last0 trajectory)
             else
               let t = Tensor [batch, length (data t)] (concat (replicate batch (data t)))
               in ebind (pack_one y0) (\<lambda>(y0, packed_shape).
                  ebind (torchode_solve slv (fn (Some packed_shape)) (ode_atol cfm)
                           (ode_rtol cfm) y0 t) (\<lambda>ys.
                  ebind (select_last1 ys) (\<lambda>sampled.
                  unpack_one sampled packed_shape)))))"

section \<open>Example values\<close>

text \<open>
  Concrete layers, a predictor and draws for the closed theorems below: the
  embedding turns every id into one float, \<open>to_embed\<close> sums the channels, the
  time embedding has one channel and the other layers return their input.
\<close>

definition example_nets :: learned where
  "example_nets =
     \<lparr>to_phoneme_emb = (\<lambda>t. Inr (Tensor (shape t @ [1]) (map of_int (data t)))),
      to_embed = (\<lambda>t. Inr (Tensor (butlast (shape t) @ [1])
                    (map (\<lambda>r. sum_list (block (last (shape t)) r (data t)))
                       [0..<prod_list (butlast (shape t))]))),
      conv_embed = Inr,
      sinu_pos_emb = (\<lambda>t. Inr (Tensor (shape t @ [1]) (data t))),
      transformer_net = Inr,
      to_pred = Inr\<rparr>"

definition example_predictor :: predictor where
  "example_predictor =
     \<lparr>null_phoneme_id = 50, drop_prob = 0.3, frac_range = (0.7, 1),
      null_cond = Tensor [1] [0], nets = example_nets\<rparr>"

definition example_draws :: draws where
  "example_draws =
     \<lparr>coin = 0.9, frac_u = (\<lambda>i. 0.5), span_u = (\<lambda>i. 0.5), mask_u = (\<lambda>i. 0.5),
      drop_u = (\<lambda>i. 0.5)\<rparr>"

section \<open>Properties\<close>

lemma ebind_Inr [simp]: "ebind (Inr v) f = f v"
  by (simp add: ebind_def)

lemma ebind_Inl [simp]: "ebind (Inl e) f = Inl e"
  by (simp add: ebind_def)


subsection \<open>Broadcasting on the shapes the mask helpers meet\<close>























subsection \<open>Mask from start and end indices\<close>

text \<open>
  C9. The claim: for every \<open>seq_len \<ge> 0\<close> and integer tensors \<open>start\<close>, \<open>end\<close> of
  one shape, \<^verbatim>\<open>mask_from_start_end_indices\<close> returns a mask of shape
  \<open>start.shape + [seq_len]\<close> that is true exactly on the half-open range. The
  code reshapes \<^verbatim>\<open>arange(seq_len)\<close> with one \<open>-1\<close> per dimension of \<open>start\<close>; for a
  \<open>start\<close> of two dimensions that is \<^verbatim>\<open>reshape(-1, -1, seq_len)\<close>, which PyTorch
  refuses. At \<open>seq_len = 3\<close>, \<open>start = [[0]]\<close>, \<open>end = [[1]]\<close> the call raises
  instead of returning the mask \<open>[[[True, False, False]]]\<close>.
\<close>

theorem mask_from_start_end_indices_rank2_raises:
  "mask_from_start_end_indices 3 (Tensor [1, 1] [0]) (Tensor [1, 1] [1]) = Inl RuntimeError"
  by (simp add: mask_from_start_end_indices_def arange_def reshape_def ndim_def)

text \<open>
  The same reshape fails for a vector \<open>start\<close> when \<open>seq_len = 0\<close>: the inferred
  dimension of \<^verbatim>\<open>reshape(-1, 0)\<close> is ambiguous.
\<close>

lemma mask_from_start_end_indices_empty_raises:
  "mask_from_start_end_indices 0 (Tensor [1] [0]) (Tensor [1] [0]) = Inl RuntimeError"
  by (simp add: mask_from_start_end_indices_def arange_def reshape_def ndim_def)

lemma mask_from_start_end_indices_shape_mismatch:
  "shape start \<noteq> shape end' \<Longrightarrow>
     mask_from_start_end_indices seq_len start end' = Inl AssertionError"
  by (simp add: mask_from_start_end_indices_def)

subsection \<open>Mask from fractional lengths\<close>





subsection \<open>Construction\<close>

lemma torch_alloc_ok: "list_all (\<lambda>d. 0 \<le> d) dims \<Longrightarrow> torch_alloc dims = Inr dims"
  by (induction dims) (auto simp: torch_alloc_def)

lemma nn_Linear_ok:
  "0 \<le> i \<Longrightarrow> 0 \<le> out \<Longrightarrow>
     nn_Linear i out = Inr \<lparr>weight_shape = [out, i], bias_shape = [out]\<rparr>"
  by (simp add: nn_Linear_def torch_alloc_def)

lemma RMSNorm_init_ok: "0 \<le> d \<Longrightarrow> RMSNorm_init d = Inr \<lparr>gamma_shape = [d]\<rparr>"
  by (simp add: RMSNorm_init_def torch_alloc_def)

lemma build_layers_ok:
  assumes "0 \<le> d" "0 < dh" "0 \<le> h" "0 \<le> m" "A fl = Inr ()"
  shows "\<exists>ls. build_layers A d dep dh h m fl inds = Inr ls"
proof (induction inds)
  case Nil
  show ?case by simp
next
  case (Cons ind inds)
  then obtain ls where "build_layers A d dep dh h m fl inds = Inr ls" by blast
  then show ?case
    using assms
    by (simp add: Let_def Attention_init_def FeedForward_def nn_Linear_ok RMSNorm_init_ok)
qed

lemma LearnedSinusoidalPosEmb_init_odd:
  "odd d \<Longrightarrow> LearnedSinusoidalPosEmb_init d = Inl AssertionError"
  by (simp add: LearnedSinusoidalPosEmb_init_def divisible_by_def odd_iff_mod_2_eq_one)

lemma LearnedSinusoidalPosEmb_init_ok:
  assumes "even d" "0 \<le> d"
  shows "LearnedSinusoidalPosEmb_init d = Inr \<lparr>weights_shape = [d div 2]\<rparr>"
proof -
  have "0 \<le> d div 2" using assms by simp
  then show ?thesis
    using assms
    by (simp add: LearnedSinusoidalPosEmb_init_def divisible_by_def torch_alloc_def
          even_iff_mod_2_eq_zero)
qed

lemma Transformer_init_odd:
  "odd dep \<Longrightarrow> Transformer_init A d dep dh h m fl = Inl AssertionError"
  by (simp add: Transformer_init_def divisible_by_def odd_iff_mod_2_eq_one)

lemma Transformer_init_ok:
  assumes "even dep" "0 \<le> d" "0 < dh" "0 \<le> h" "0 \<le> m" "A fl = Inr ()"
  shows "\<exists>module. Transformer_init A d dep dh h m fl = Inr module"
proof -
  obtain ls where "build_layers A d dep dh h m fl [0..<nat dep] = Inr ls"
    using build_layers_ok [of d dh h m A fl dep "[0..<nat dep]"] assms by blast
  then show ?thesis
    using assms
    by (simp add: Transformer_init_def divisible_by_def even_iff_mod_2_eq_zero
          RotaryEmbedding_init_def RMSNorm_init_ok)
qed

lemma ConvPositionEmbed_init_even:
  "even k \<Longrightarrow> ConvPositionEmbed_init d k g = Inl AssertionError"
  by (simp add: ConvPositionEmbed_init_def is_odd_def divisible_by_def even_iff_mod_2_eq_zero)

lemma ConvPositionEmbed_init_ok:
  assumes "odd k" "0 < k" "0 \<le> d" "0 < default_val g d" "d mod default_val g d = 0"
  shows "\<exists>module. ConvPositionEmbed_init d k g = Inr module"
proof -
  have "0 \<le> d div default_val g d"
    using assms by (simp add: pos_imp_zdiv_nonneg_iff)
  then show ?thesis
    using assms
    by (simp add: ConvPositionEmbed_init_def is_odd_def divisible_by_def odd_iff_mod_2_eq_one
          nn_Conv1d_def torch_alloc_def Let_def)
qed

text \<open>
  C8. Configuration violations fail at construction time: constructing
  \<^verbatim>\<open>LearnedSinusoidalPosEmb\<close> with an odd dimension, \<^verbatim>\<open>Transformer\<close> with an odd
  depth or \<^verbatim>\<open>ConvPositionEmbed\<close> with an even kernel size raises the assertion
  error, whatever the other arguments are; with valid values (the parity
  right, the sizes not negative, the head dimension positive, the groups
  dividing the dimension, and the constructor of \<^verbatim>\<open>Attend\<close> succeeding)
  construction succeeds.
\<close>

theorem construction_checks:
  "(odd d \<longrightarrow> LearnedSinusoidalPosEmb_init d = Inl AssertionError)
   \<and> (odd dep \<longrightarrow> Transformer_init A d dep dh h m fl = Inl AssertionError)
   \<and> (even k \<longrightarrow> ConvPositionEmbed_init d k g = Inl AssertionError)
   \<and> (even d \<and> 0 \<le> d \<longrightarrow> (\<exists>module. LearnedSinusoidalPosEmb_init d = Inr module))
   \<and> (even dep \<and> 0 \<le> d \<and> 0 < dh \<and> 0 \<le> h \<and> 0 \<le> m \<and> A fl = Inr ()
        \<longrightarrow> (\<exists>module. Transformer_init A d dep dh h m fl = Inr module))
   \<and> (odd k \<and> 0 < k \<and> 0 \<le> d \<and> 0 < default_val g d \<and> d mod default_val g d = 0
        \<longrightarrow> (\<exists>module. ConvPositionEmbed_init d k g = Inr module))"
  using LearnedSinusoidalPosEmb_init_odd [of d] Transformer_init_odd [of dep A d dh h m fl]
    ConvPositionEmbed_init_even [of k d g] LearnedSinusoidalPosEmb_init_ok [of d]
    Transformer_init_ok [of dep d dh h m A fl] ConvPositionEmbed_init_ok [of k d g]
  by auto

theorem construction_checks_witness:
  "LearnedSinusoidalPosEmb_init 3 = Inl AssertionError
   \<and> Transformer_init (\<lambda>flash. Inr ()) 3 3 2 1 4 False = Inl AssertionError
   \<and> ConvPositionEmbed_init 3 30 None = Inl AssertionError
   \<and> (\<exists>module. LearnedSinusoidalPosEmb_init 4 = Inr module)
   \<and> (\<exists>module. Transformer_init (\<lambda>flash. Inr ()) 4 2 2 1 4 False = Inr module)
   \<and> (\<exists>module. ConvPositionEmbed_init 4 31 None = Inr module)"
  using construction_checks [of 3 3 "\<lambda>flash. Inr ()" 2 1 4 False 30 None]
    construction_checks [of 4 2 "\<lambda>flash. Inr ()" 2 1 4 False 31 None]
  by (simp add: default_val_def exists_val_def)

lemma Rearrange_unresolved: "lookup_global ''Rearrange'' = Inl NameError"
  by (simp add: lookup_global_def module_globals_def)

lemma DurationPredictor_defaults_sel:
  "num_phoneme_tokens (DurationPredictor_defaults n) = n"
  "dim_phoneme_emb (DurationPredictor_defaults n) = 512"
  "dim' (DurationPredictor_defaults n) = 512"
  "depth (DurationPredictor_defaults n) = 10"
  "dim_head (DurationPredictor_defaults n) = 64"
  "heads (DurationPredictor_defaults n) = 8"
  "ff_mult (DurationPredictor_defaults n) = 4"
  "conv_pos_embed_kernel_size (DurationPredictor_defaults n) = 31"
  "conv_pos_embed_groups (DurationPredictor_defaults n) = None"
  "attn_flash (DurationPredictor_defaults n) = False"
  by (simp_all add: DurationPredictor_defaults_def)

text \<open>
  C2, as the code has it. Every attempt to construct a \<^verbatim>\<open>DurationPredictor\<close>
  raises, so no instance exists and no method can be called on one. The error
  is the unresolved name \<^verbatim>\<open>Rearrange\<close> whenever the sub-modules built before
  \<^verbatim>\<open>to_pred\<close> construct, in particular for the default arguments; otherwise
  it is the error of the first sub-module that fails.
\<close>

theorem DurationPredictor_init_raises:
  "(\<exists>e. DurationPredictor_init Attend_init fs a = Inl e)
   \<and> (0 \<le> num_phoneme_tokens a + 1 \<and> 0 \<le> dim_phoneme_emb a \<and> 0 \<le> dim' a
        \<and> (\<exists>c. ConvPositionEmbed_init (dim' a) (conv_pos_embed_kernel_size a)
                  (conv_pos_embed_groups a) = Inr c)
        \<and> (\<exists>t. Transformer_init Attend_init (dim' a) (depth a) (dim_head a) (heads a)
                  (ff_mult a) (attn_flash a) = Inr t)
        \<longrightarrow> DurationPredictor_init Attend_init fs a = Inl NameError)
   \<and> (0 \<le> n + 1 \<and> Attend_init False = Inr ()
        \<longrightarrow> DurationPredictor_init Attend_init fs (DurationPredictor_defaults n) = Inl NameError)"
proof (intro conjI impI)
  show "\<exists>e. DurationPredictor_init Attend_init fs a = Inl e"
    by (auto simp: DurationPredictor_init_def ebind_def Rearrange_unresolved split: sum.splits)
next
  assume "0 \<le> num_phoneme_tokens a + 1 \<and> 0 \<le> dim_phoneme_emb a \<and> 0 \<le> dim' a
        \<and> (\<exists>c. ConvPositionEmbed_init (dim' a) (conv_pos_embed_kernel_size a)
                  (conv_pos_embed_groups a) = Inr c)
        \<and> (\<exists>t. Transformer_init Attend_init (dim' a) (depth a) (dim_head a) (heads a)
                  (ff_mult a) (attn_flash a) = Inr t)"
  then show "DurationPredictor_init Attend_init fs a = Inl NameError"
    by (auto simp: DurationPredictor_init_def nn_Embedding_def torch_alloc_def nn_Linear_ok
          Rearrange_unresolved)
next
  assume h: "0 \<le> n + 1 \<and> Attend_init False = Inr ()"
  let ?a = "DurationPredictor_defaults n"
  obtain c where c: "ConvPositionEmbed_init 512 31 None = Inr c"
    using ConvPositionEmbed_init_ok [of 31 512 None] by (auto simp: default_val_def exists_val_def)
  obtain t where t: "Transformer_init Attend_init 512 10 64 8 4 False = Inr t"
    using Transformer_init_ok [of 10 512 64 8 4 Attend_init False] h by auto
  show "DurationPredictor_init Attend_init fs ?a = Inl NameError"
    using h c t
    by (simp add: DurationPredictor_init_def DurationPredictor_defaults_sel nn_Embedding_def
          torch_alloc_def nn_Linear_ok Rearrange_unresolved)
qed

theorem DurationPredictor_init_raises_witness:
  "DurationPredictor_init (\<lambda>flash. Inr ()) example_nets (DurationPredictor_defaults 100)
     = Inl NameError"
  using DurationPredictor_init_raises
    [of "\<lambda>flash. Inr ()" example_nets "DurationPredictor_defaults 100" 100]
  by simp

text \<open>
  The claim as stated names the unresolved-name error for all arguments. With
  an even \<^verbatim>\<open>conv_pos_embed_kernel_size\<close> the assertion of
  \<^verbatim>\<open>ConvPositionEmbed\<close> fails first.
\<close>

theorem DurationPredictor_init_assertion_first:
  "DurationPredictor_init (\<lambda>flash. Inr ()) example_nets
       ((DurationPredictor_defaults 100)\<lparr>conv_pos_embed_kernel_size := 30\<rparr>)
     = Inl AssertionError
   \<and> DurationPredictor_init (\<lambda>flash. Inr ()) example_nets
       ((DurationPredictor_defaults 100)\<lparr>conv_pos_embed_kernel_size := 30\<rparr>)
     \<noteq> Inl NameError"
  by (simp add: DurationPredictor_init_def DurationPredictor_defaults_def nn_Embedding_def
        torch_alloc_def nn_Linear_ok ConvPositionEmbed_init_even)


subsection \<open>The duration predictor without target\<close>

lemma ebind_raises:
  "(\<And>v. \<exists>e. f v = Inl e) \<Longrightarrow> \<exists>e. ebind r f = Inl e"
  by (cases r) (simp_all add: ebind_def)

lemma l1_without_target_raises:
  "\<exists>e. (if \<not> exists_val m then l1_loss x None
         else ebind (l1_loss_none x None) f) = Inl e"
  by (simp add: l1_loss_def l1_loss_none_def)

text \<open>
  C1. The claim: a call of \<^verbatim>\<open>DurationPredictor.forward\<close> without target returns the
  raw predictions, the output of the final projection \<^verbatim>\<open>to_pred\<close>, and does
  not fail. The code never applies \<^verbatim>\<open>to_pred\<close> and has no early return for an
  absent target (\<^verbatim>\<open>VoiceBox.forward\<close> has both): the mask always exists after
  its construction, so the call reaches \<^verbatim>\<open>F.l1_loss(x, None, reduction = 'none')\<close>
  and raises. Every call without target ends in an error.
\<close>

theorem DurationPredictor_forward_no_target_raises:
  "\<exists>e. DurationPredictor_forward dp dr x phoneme_ids cond cond_drop_prob None mask' = Inl e"
proof (cases "\<exists>batch seq_len cond_dim. shape cond = [batch, seq_len, cond_dim]")
  case False
  then have "DurationPredictor_forward dp dr x phoneme_ids cond cond_drop_prob None mask'
               = Inl ValueError"
    by (auto simp: DurationPredictor_forward_def split: list.splits)
  then show ?thesis by blast
next
  case True
  then obtain batch seq_len cond_dim where s: "shape cond = [batch, seq_len, cond_dim]"
    by blast
  show ?thesis
    unfolding DurationPredictor_forward_def s
    by (auto simp: split_beta l1_loss_def l1_loss_none_def
          intro!: ebind_raises)
qed

lemma DurationPredictor_forward_example:
  "DurationPredictor_forward example_predictor example_draws (Tensor [1, 1, 1] [1])
       (Tensor [1, 1] [0]) (Tensor [1, 1, 1] [0]) 0 None None
     = Inl AttributeError"
  by code_simp

lemma construct_mask_nets [simp]:
  "construct_mask (p\<lparr>nets := fs\<rparr>) dr batch seq_len m = construct_mask p dr batch seq_len m"
  by (simp add: construct_mask_def)

lemma drop_condition_nets [simp]:
  "drop_condition (p\<lparr>nets := fs\<rparr>) dr q cond ids = drop_condition p dr q cond ids"
  by (simp add: drop_condition_def)

lemma DurationPredictor_forward_ignores_to_pred:
  "DurationPredictor_forward (dp\<lparr>nets := (nets dp)\<lparr>to_pred := f\<rparr>\<rparr>) dr x phoneme_ids cond
       cond_drop_prob target mask'
     = DurationPredictor_forward dp dr x phoneme_ids cond cond_drop_prob target mask'"
  by (simp add: DurationPredictor_forward_def split: list.splits)

subsection \<open>Guidance with scale one\<close>

text \<open>
  C6. For every input, \<^verbatim>\<open>forward_with_cond_scale\<close> with \<^verbatim>\<open>cond_scale = 1\<close> returns
  exactly the result of a single forward pass with \<^verbatim>\<open>cond_drop_prob = 0\<close> (on
  the same random draws), for the VoiceBox predictor and for the duration
  predictor.
\<close>

theorem cond_scale_one_is_conditioned_forward:
  "VoiceBox_forward_with_cond_scale vb dr dr' x phoneme_ids cond times' 1 target mask'
     = VoiceBox_forward vb dr x phoneme_ids cond times' 0 target mask'
   \<and> DurationPredictor_forward_with_cond_scale dp dr dr' x phoneme_ids cond 1 target mask'
     = DurationPredictor_forward dp dr x phoneme_ids cond 0 target mask'"
  by (simp add: VoiceBox_forward_with_cond_scale_def DurationPredictor_forward_with_cond_scale_def
        ebind_def split: sum.splits)

subsection \<open>Sampling does not read the mask\<close>

text \<open>
  C10. The mask argument of \<^verbatim>\<open>ConditionalFlowMatcherWrapper.sample\<close> has no effect:
  two runs that differ only in the mask, on the same solver, random draws and
  other arguments, return the same result.
\<close>

theorem sample_ignores_mask:
  "sample slv cfm noise phoneme_ids cond mask1 steps cond_scale
     = sample slv cfm noise phoneme_ids cond mask2 steps cond_scale"
  by (simp add: sample_def)

subsection \<open>The masked loss\<close>

text \<open>
  C3. The claim: the masked loss with an all-false mask equals the unmasked
  loss, the plain mean over all positions. The code fills the loss with zero
  where the mask is true, sums what remains and divides by the number of true
  mask positions, clamped at \<open>1e-5\<close>. With an all-false mask nothing is filled
  and the count is zero, so the sum is divided by \<open>1e-5\<close>: for one position with
  squared error \<open>1\<close> the masked loss is \<open>100000\<close>, while \<^verbatim>\<open>F.mse_loss\<close> over the
  same prediction and target, the code's own unmasked loss, is \<open>1\<close>. The
  reduction \<open>masked_mean\<close> is the one of both predictors.
\<close>

theorem masked_loss_all_false:
  "VoiceBox_forward example_predictor example_draws (Tensor [1, 1, 1] [1]) (Tensor [1, 1] [0])
       (Tensor [1, 1, 1] [0]) (Tensor [] [0]) 0 (Some (Tensor [1, 1, 1] [1]))
       (Some (Tensor [1, 1] [False]))
     = Inr (Loss (Some 100000))
   \<and> mse_loss (Tensor [1, 1, 1] [2]) (Some (Tensor [1, 1, 1] [1])) = Inr (Loss (Some 1))
   \<and> masked_mean (Tensor [1, 1] [Some 1]) (Tensor [1, 1] [False]) = Inr (Loss (Some 100000))"
  by code_simp

lemma masked_loss_all_true_example:
  "VoiceBox_forward example_predictor example_draws (Tensor [1, 1, 1] [1]) (Tensor [1, 1] [0])
       (Tensor [1, 1, 1] [0]) (Tensor [] [0]) 0 (Some (Tensor [1, 1, 1] [1]))
       (Some (Tensor [1, 1] [True]))
     = Inr (Loss (Some 0))"
  by code_simp

lemma VoiceBox_logits_example:
  "VoiceBox_forward example_predictor example_draws (Tensor [1, 1, 1] [1]) (Tensor [1, 1] [0])
       (Tensor [1, 1, 1] [0]) (Tensor [] [0]) 0 None None
     = Inr (Logits (Tensor [1, 1, 1] [2]))"
  by code_simp


text \<open>
  The denominator of the masked mean is never zero: the count of every row is
  clamped at \<open>1e-5\<close>.
\<close>

lemma clamp_min_bound: "list_all (\<lambda>v. m \<le> v) (data (clamp_min m count))"
  by (simp add: clamp_min_def tensor.map_sel list_all_iff)

lemma masked_mean_denominator_positive:
  "list_all (\<lambda>v. 0 < v) (data (clamp_min (1 / 100000) count))"
  using clamp_min_bound [of "1 / 100000" count]
  by (auto simp: list_all_iff intro: less_le_trans [of 0 "1 / 100000"])

text \<open>
  A pass that returns does so with predictions exactly when no target is
  given; so the two passes of \<^verbatim>\<open>forward_with_cond_scale\<close> return results of one
  kind, and the callback of \<^verbatim>\<open>sample\<close> gets predictions.
\<close>

lemma masked_mean_kind: "masked_mean loss m = Inr r \<Longrightarrow> \<exists>v. r = Loss v"
  by (auto simp: masked_mean_def ebind_def Let_def split: sum.splits)

lemma VoiceBox_forward_kind:
  assumes "VoiceBox_forward vb dr x phoneme_ids cond times' cond_drop_prob target mask' = Inr r"
  shows "(\<exists>l. r = Logits l) = (target = None)"
proof (cases target)
  case None
  then show ?thesis
    using assms
    by (auto simp: VoiceBox_forward_def ebind_def exists_val_def Let_def
        split: list.splits sum.splits if_splits prod.splits)
next
  case (Some t)
  then have "\<exists>v. r = Loss v"
    using assms
    by (auto simp: VoiceBox_forward_def ebind_def exists_val_def Let_def mse_loss_def
        dest: masked_mean_kind split: list.splits sum.splits if_splits prod.splits)
  with Some show ?thesis by auto
qed

subsection \<open>The flow matching target\<close>

lemma src_index_same: "j < prod_list s \<Longrightarrow> src_index s s j = j"
proof (induction s arbitrary: j)
  case Nil
  then show ?case by simp
next
  case (Cons a s)
  have pos: "0 < prod_list s"
    using Cons.prems by (cases "prod_list s = 0") auto
  then have m: "j mod prod_list s < prod_list s" by simp
  show ?case
  proof (cases "a = 1")
    case True
    then have "j < prod_list s" using Cons.prems by simp
    then show ?thesis using True Cons.IH [OF m] by simp
  next
    case False
    then show ?thesis using Cons.IH [OF m] by simp
  qed
qed

lemma broadcast_shapes_same: "broadcast_shapes s s = Some s"
proof -
  have "map2 (\<lambda>x y. if x = 1 then y else x) s s = s"
    by (induction s) auto
  then show ?thesis
    by (simp add: broadcast_shapes_def pad_shape_def list_all2_same)
qed

lemma broadcast_to_same:
  "wf_tensor t \<Longrightarrow> shape t = s \<Longrightarrow> broadcast_to t s = t"
  by (cases t) (auto simp: broadcast_to_def pad_shape_def wf_tensor_def src_index_same
      intro!: nth_equalityI)

lemma tensor_op2_same:
  assumes "wf_tensor a" "wf_tensor b" "shape a = s" "shape b = s"
  shows "tensor_op2 f a b = Inr (Tensor s (map2 f (data a) (data b)))"
  using assms by (simp add: tensor_op2_def broadcast_shapes_same broadcast_to_same)

lemma src_index_batch:
  "j < b * (n * d) \<Longrightarrow> src_index [b, Suc 0, Suc 0] [b, n, d] j = j div (n * d)"
  by (cases "b = 1") auto

lemma broadcast_shapes_batch: "broadcast_shapes [b, Suc 0, Suc 0] [b, n, d] = Some [b, n, d]"
  by (simp add: broadcast_shapes_def pad_shape_def)

lemma map2_nth_upt:
  "length xs = m \<Longrightarrow> map2 f (map g [0..<m]) xs = map (\<lambda>j. f (g j) (xs ! j)) [0..<m]"
  by (auto intro!: nth_equalityI)

lemma scale_by_batch:
  assumes "shape x = [b, n, d]" "wf_tensor x"
  shows "tensor_op2 f (Tensor [b, Suc 0, Suc 0] cs) x
           = Inr (Tensor [b, n, d]
               (map (\<lambda>j. f (cs ! (j div (n * d))) (data x ! j)) [0..<b * (n * d)]))"
proof -
  have l: "length (data x) = b * (n * d)"
    using assms by (simp add: wf_tensor_def)
  have "broadcast_to x [b, n, d] = x"
    using assms by (simp add: broadcast_to_same)
  moreover have "data (broadcast_to (Tensor [b, Suc 0, Suc 0] cs) [b, n, d])
                   = map (\<lambda>j. cs ! (j div (n * d))) [0..<b * (n * d)]"
    by (simp add: broadcast_to_def pad_shape_def src_index_batch cong: map_cong)
  ultimately show ?thesis
    using assms(1) l
    by (simp add: tensor_op2_def broadcast_shapes_batch map2_nth_upt)
qed

lemma interpolant_batch:
  assumes x1: "shape x1 = [b, n, d]" "wf_tensor x1"
    and x0: "shape x0 = [b, n, d]" "wf_tensor x0"
    and ts: "length ts = b"
  shows "interpolant \<sigma> (Tensor [b, Suc 0, Suc 0] ts) x0 x1
           = Inr (Tensor [b, n, d]
               (map (\<lambda>j. (1 - (1 - \<sigma>) * ts ! (j div (n * d))) * data x0 ! j
                          + ts ! (j div (n * d)) * data x1 ! j)
                  [0..<b * (n * d)]))"
proof -
  let ?N = "b * (n * d)"
  let ?cs = "map (\<lambda>v. 1 - (1 - \<sigma>) * v) ts"
  let ?a = "Tensor [b, n, d] (map (\<lambda>j. ?cs ! (j div (n * d)) * data x0 ! j) [0..<?N])"
  let ?b = "Tensor [b, n, d] (map (\<lambda>j. ts ! (j div (n * d)) * data x1 ! j) [0..<?N])"
  have a: "tensor_op2 (\<lambda>c v. c * v) (Tensor [b, Suc 0, Suc 0] ?cs) x0 = Inr ?a"
    using scale_by_batch [OF x0, of "\<lambda>c v. c * v" ?cs] by simp
  have b: "tensor_op2 (\<lambda>c v. c * v) (Tensor [b, Suc 0, Suc 0] ts) x1 = Inr ?b"
    using scale_by_batch [OF x1, of "\<lambda>c v. c * v" ts] by simp
  have c: "tensor_op2 (+) ?a ?b
             = Inr (Tensor [b, n, d]
                 (map (\<lambda>j. ?cs ! (j div (n * d)) * data x0 ! j
                            + ts ! (j div (n * d)) * data x1 ! j) [0..<?N]))"
    by (simp add: tensor_op2_same wf_tensor_def zip_map_map zip_same_conv_map)
  have "?cs ! (j div (n * d)) = 1 - (1 - \<sigma>) * ts ! (j div (n * d))" if "j < ?N" for j
    using that ts by (simp add: less_mult_imp_div_less)
  then show ?thesis
    by (simp add: interpolant_def a b c cong: map_cong)
qed

lemma flow_target_same:
  assumes x1: "shape x1 = s" "wf_tensor x1"
    and x0: "shape x0 = s" "wf_tensor x0"
  shows "flow_target \<sigma> x0 x1
           = Inr (Tensor s (map (\<lambda>j. data x1 ! j - (1 - \<sigma>) * data x0 ! j) [0..<prod_list s]))"
proof -
  have l: "length (data x1) = prod_list s" "length (data x0) = prod_list s"
    using assms by (simp_all add: wf_tensor_def)
  have "wf_tensor (map_tensor (\<lambda>v. (1 - \<sigma>) * v) x0)"
    using x0 by (simp add: wf_tensor_def tensor.map_sel)
  then have "flow_target \<sigma> x0 x1
               = Inr (Tensor s (map2 (-) (data x1) (map (\<lambda>v. (1 - \<sigma>) * v) (data x0))))"
    using assms by (simp add: flow_target_def tensor_op2_same tensor.map_sel)
  moreover have "map2 (-) (data x1) (map (\<lambda>v. (1 - \<sigma>) * v) (data x0))
                   = map (\<lambda>j. data x1 ! j - (1 - \<sigma>) * data x0 ! j) [0..<prod_list s]"
    using l by (auto intro!: nth_equalityI)
  ultimately show ?thesis by simp
qed

lemma forward_feeds_interpolant:
  assumes x1: "shape x1 = [b, n, d]" "wf_tensor x1"
  shows "ConditionalFlowMatcherWrapper_forward cfm noise time_u dr x1 phoneme_ids cond mask'
           = VoiceBox_forward (voicebox cfm) dr
               (Tensor [b, n, d]
                  (map (\<lambda>j. (1 - (1 - sigma cfm) * time_u (j div (n * d))) * noise j
                             + time_u (j div (n * d)) * data x1 ! j)
                     [0..<b * (n * d)]))
               phoneme_ids cond (Tensor [b] (map time_u [0..<b])) (cfm_cond_drop_prob cfm)
               (Some (Tensor [b, n, d]
                  (map (\<lambda>j. data x1 ! j - (1 - sigma cfm) * noise j) [0..<b * (n * d)])))
               mask'"
proof -
  let ?N = "b * (n * d)"
  let ?x0 = "randn_like noise x1"
  have s0: "shape ?x0 = [b, n, d]" and w0: "wf_tensor ?x0"
    using x1 by (simp_all add: randn_like_def wf_tensor_def)
  have i: "j div (n * d) < b" if "j < ?N" for j
    using that by (simp add: less_mult_imp_div_less)
  have d0: "data ?x0 ! j = noise j" if "j < ?N" for j
    using that x1 by (simp add: randn_like_def)
  have "map (\<lambda>j. (1 - (1 - sigma cfm) * map time_u [0..<b] ! (j div (n * d))) * data ?x0 ! j
                  + map time_u [0..<b] ! (j div (n * d)) * data x1 ! j) [0..<?N]
          = map (\<lambda>j. (1 - (1 - sigma cfm) * time_u (j div (n * d))) * noise j
                      + time_u (j div (n * d)) * data x1 ! j) [0..<?N]"
    by (rule map_cong) (simp_all add: i d0)
  then have w: "interpolant (sigma cfm) (Tensor [b, Suc 0, Suc 0] (map time_u [0..<b])) ?x0 x1
            = Inr (Tensor [b, n, d]
                (map (\<lambda>j. (1 - (1 - sigma cfm) * time_u (j div (n * d))) * noise j
                           + time_u (j div (n * d)) * data x1 ! j) [0..<?N]))"
    using interpolant_batch [OF x1 s0 w0, of "map time_u [0..<b]" "sigma cfm"] by simp
  have "map (\<lambda>j. data x1 ! j - (1 - sigma cfm) * data ?x0 ! j) [0..<?N]
          = map (\<lambda>j. data x1 ! j - (1 - sigma cfm) * noise j) [0..<?N]"
    by (rule map_cong) (simp_all add: d0)
  then have f: "flow_target (sigma cfm) ?x0 x1
            = Inr (Tensor [b, n, d]
                (map (\<lambda>j. data x1 ! j - (1 - sigma cfm) * noise j) [0..<?N]))"
    using flow_target_same [OF x1 s0 w0, of "sigma cfm"] by simp
  show ?thesis
    using x1(1) by (simp add: ConditionalFlowMatcherWrapper_forward_def Let_def w f)
qed

text \<open>
  C5. In \<^verbatim>\<open>ConditionalFlowMatcherWrapper.forward\<close>, for data \<open>x1\<close> of shape
  \<open>[b, n, d]\<close>, noise \<open>x0\<close> of the same shape and one time per batch item, the
  predictor is given the interpolant \<open>w = (1 - (1 - \<sigma>) t) x0 + t x1\<close> as its
  input and \<open>flow = x1 - (1 - \<sigma>) x0\<close> as its target, element by element, the
  time of a batch item applying to all its positions and channels. For
  \<open>\<sigma> = 0\<close> the flow is \<open>x1 - x0\<close>, and \<open>w\<close> is \<open>x0\<close> at time \<open>0\<close> and \<open>x1\<close> at
  time \<open>1\<close>. No bound on the times is needed.
\<close>

theorem flow_matching_target:
  assumes x1: "shape x1 = [b, n, d]" "wf_tensor x1"
    and x0: "shape x0 = [b, n, d]" "wf_tensor x0"
    and ts: "length ts = b"
  shows "ConditionalFlowMatcherWrapper_forward cfm noise time_u dr x1 phoneme_ids cond mask'
           = VoiceBox_forward (voicebox cfm) dr
               (Tensor [b, n, d]
                  (map (\<lambda>j. (1 - (1 - sigma cfm) * time_u (j div (n * d))) * noise j
                             + time_u (j div (n * d)) * data x1 ! j)
                     [0..<b * (n * d)]))
               phoneme_ids cond (Tensor [b] (map time_u [0..<b])) (cfm_cond_drop_prob cfm)
               (Some (Tensor [b, n, d]
                  (map (\<lambda>j. data x1 ! j - (1 - sigma cfm) * noise j) [0..<b * (n * d)])))
               mask'
       \<and> interpolant \<sigma> (Tensor [b, 1, 1] ts) x0 x1
           = Inr (Tensor [b, n, d]
               (map (\<lambda>j. (1 - (1 - \<sigma>) * ts ! (j div (n * d))) * data x0 ! j
                          + ts ! (j div (n * d)) * data x1 ! j)
                  [0..<b * (n * d)]))
       \<and> flow_target \<sigma> x0 x1
           = Inr (Tensor [b, n, d]
               (map (\<lambda>j. data x1 ! j - (1 - \<sigma>) * data x0 ! j) [0..<b * (n * d)]))
       \<and> flow_target 0 x0 x1
           = Inr (Tensor [b, n, d] (map (\<lambda>j. data x1 ! j - data x0 ! j) [0..<b * (n * d)]))
       \<and> interpolant 0 (Tensor [b, 1, 1] (replicate b 0)) x0 x1 = Inr x0
       \<and> interpolant 0 (Tensor [b, 1, 1] (replicate b 1)) x0 x1 = Inr x1"
proof -
  let ?N = "b * (n * d)"
  have l: "length (data x1) = ?N" "length (data x0) = ?N"
    using assms by (simp_all add: wf_tensor_def)
  have i: "j div (n * d) < b" if "j < ?N" for j
    using that by (simp add: less_mult_imp_div_less)
  have w: "interpolant \<sigma> (Tensor [b, 1, 1] ts) x0 x1
           = Inr (Tensor [b, n, d]
               (map (\<lambda>j. (1 - (1 - \<sigma>) * ts ! (j div (n * d))) * data x0 ! j
                          + ts ! (j div (n * d)) * data x1 ! j)
                  [0..<?N]))"
    using interpolant_batch [OF x1 x0 ts, of \<sigma>] by simp
  have f: "flow_target \<sigma> x0 x1
           = Inr (Tensor [b, n, d]
               (map (\<lambda>j. data x1 ! j - (1 - \<sigma>) * data x0 ! j) [0..<?N]))" for \<sigma>
    using flow_target_same [OF x1 x0, of \<sigma>] by simp
  have e0: "Tensor [b, n, d] (map (\<lambda>j. data x0 ! j) [0..<?N]) = x0"
    using l x0(1) map_nth [of "data x0"] by (cases x0) simp
  have "map (\<lambda>j. (1 - (1 - 0) * replicate b (0::real) ! (j div (n * d))) * data x0 ! j
                  + replicate b 0 ! (j div (n * d)) * data x1 ! j) [0..<?N]
          = map (\<lambda>j. data x0 ! j) [0..<?N]"
    by (rule map_cong) (simp_all add: i)
  then have "interpolant 0 (Tensor [b, Suc 0, Suc 0] (replicate b 0)) x0 x1 = Inr x0"
    by (simp only: interpolant_batch [OF x1 x0 length_replicate] e0)
  then have w0: "interpolant 0 (Tensor [b, 1, 1] (replicate b 0)) x0 x1 = Inr x0"
    by simp
  have e1: "Tensor [b, n, d] (map (\<lambda>j. data x1 ! j) [0..<?N]) = x1"
    using l x1(1) map_nth [of "data x1"] by (cases x1) simp
  have "map (\<lambda>j. (1 - (1 - 0) * replicate b (1::real) ! (j div (n * d))) * data x0 ! j
                  + replicate b 1 ! (j div (n * d)) * data x1 ! j) [0..<?N]
          = map (\<lambda>j. data x1 ! j) [0..<?N]"
    by (rule map_cong) (simp_all add: i)
  then have "interpolant 0 (Tensor [b, Suc 0, Suc 0] (replicate b 1)) x0 x1 = Inr x1"
    by (simp only: interpolant_batch [OF x1 x0 length_replicate] e1)
  then have w1: "interpolant 0 (Tensor [b, 1, 1] (replicate b 1)) x0 x1 = Inr x1"
    by simp
  show ?thesis
    using forward_feeds_interpolant [OF x1] w f [of \<sigma>] f [of 0] w0 w1 by simp
qed

theorem flow_matching_target_witness:
  "interpolant (1 / 2) (Tensor [1, 1, 1] [1 / 2]) (Tensor [1, 1, 2] [4, 8]) (Tensor [1, 1, 2] [1, 2])
     = Inr (Tensor [1, 1, 2] [7 / 2, 7])
   \<and> flow_target (1 / 2) (Tensor [1, 1, 2] [4, 8]) (Tensor [1, 1, 2] [1, 2])
     = Inr (Tensor [1, 1, 2] [- 1, - 2])
   \<and> flow_target 0 (Tensor [1, 1, 2] [4, 8]) (Tensor [1, 1, 2] [1, 2])
     = Inr (Tensor [1, 1, 2] [- 3, - 6])
   \<and> interpolant 0 (Tensor [1, 1, 1] [0]) (Tensor [1, 1, 2] [4, 8]) (Tensor [1, 1, 2] [1, 2])
     = Inr (Tensor [1, 1, 2] [4, 8])
   \<and> interpolant 0 (Tensor [1, 1, 1] [1]) (Tensor [1, 1, 2] [4, 8]) (Tensor [1, 1, 2] [1, 2])
     = Inr (Tensor [1, 1, 2] [1, 2])"
proof -
  have h: "shape (Tensor [1, 1, 2] [1, 2 :: real]) = [1, 1, 2]"
    "wf_tensor (Tensor [1, 1, 2] [1, 2 :: real])"
    "shape (Tensor [1, 1, 2] [4, 8 :: real]) = [1, 1, 2]"
    "wf_tensor (Tensor [1, 1, 2] [4, 8 :: real])"
    "length [1 / 2 :: real] = 1"
    by (simp_all add: wf_tensor_def)
  show ?thesis
    using flow_matching_target [where \<sigma> = "1 / 2", OF h, THEN conjunct2]
    by (simp add: upt_rec)
qed

end
